theory Spec2Isabelle
  imports Complex_Main "HOL-Library.Sublist" "HOL-Library.Word"
begin

section \<open>Strings\<close>

text \<open>
  A JavaScript string is a sequence of 16-bit code units. The messages of errors, which
  \<^verbatim>\<open>JSON.stringify\<close> reads unit by unit, are kept so; a unit may be one half of a
  surrogate pair, with or without its other half. Strings that the program only copies
  or tests for emptiness (addresses, names, the environment) are kept as \<open>string\<close>. The
  program's own literals are ASCII; \<open>utf16\<close> gives their code units.
\<close>

type_synonym code_unit = "16 word"

type_synonym js_string = "code_unit list"

definition utf16 :: "string \<Rightarrow> js_string" where
  "utf16 s = map (\<lambda>c. of_nat (of_char c)) s"

section \<open>Values thrown and caught\<close>

text \<open>
  Both functions end in \<^verbatim>\<open>catch (error)\<close> and read the caught value with
  \<^verbatim>\<open>error instanceof Error ? error.message : String(error)\<close>.
  A thrown value is therefore either an instance of \<^verbatim>\<open>Error\<close>, known by its
  \<^verbatim>\<open>message\<close>, or something else, known by what \<^verbatim>\<open>String\<close> makes of it.
  A rejected promise is the left summand of a sum, a fulfilled one the right summand.
\<close>

datatype thrown = ErrorObj js_string | NonError js_string

fun catch_message :: "thrown \<Rightarrow> js_string" where
  "catch_message (ErrorObj m) = m"
| "catch_message (NonError s) = s"

text \<open>
  Reading a property of \<^verbatim>\<open>undefined\<close> throws a \<^verbatim>\<open>TypeError\<close> (an instance of
  \<^verbatim>\<open>Error\<close>). Its message is the one of Node 18 and later, the engines that
  \<^verbatim>\<open>package.json\<close> admits.
\<close>

definition TypeError_undefined :: "string \<Rightarrow> thrown" where
  "TypeError_undefined prop =
     ErrorObj (utf16 (''Cannot read properties of undefined (reading ''
                      @ [CHR 0x27] @ prop @ [CHR 0x27] @ '')''))"

text \<open>\<^verbatim>\<open>process.env\<close>: a variable is a string or is not set.\<close>

type_synonym process_env = "string \<Rightarrow> string option"

text \<open>\<^verbatim>\<open>process.env.X || fallback\<close>: an unset and an empty variable both give the fallback.\<close>

definition env_or :: "process_env \<Rightarrow> string \<Rightarrow> string \<Rightarrow> string" where
  "env_or env var fallback =
     (case env var of
        None \<Rightarrow> fallback
      | Some v \<Rightarrow> if v = [] then fallback else v)"

section \<open>getVaultList: the data\<close>

text \<open>JavaScript numbers that the code only copies are kept as rationals.\<close>

type_synonym number = rat

record VaultAsset =
  asset_address :: string
  asset_name :: string
  asset_symbol :: string
  decimals :: number

record DailyApy =
  apy :: number

record VaultWarning =
  level :: string

record VaultLiquidity =
  underlying :: number
  usd :: number

record VaultChain =
  chain_id :: number
  network :: string
  currency :: string

record VaultItem =
  address :: string
  name :: string
  symbol :: string
  whitelisted :: bool
  asset :: VaultAsset
  dailyApys :: "DailyApy list"
  warnings :: "VaultWarning list"
  liquidity :: VaultLiquidity
  chain :: VaultChain

record GraphQLError =
  message :: js_string

record VaultsPage =
  items :: "VaultItem list"

record VaultResponseData =
  vaults :: VaultsPage

text \<open>
  \<^verbatim>\<open>GraphQLResponse<T>\<close>: both fields are optional; \<open>None\<close> is the field left out.
\<close>

record 'a GraphQLResponse =
  data :: "'a option"
  errors :: "GraphQLError list option"

text \<open>
  What \<^verbatim>\<open>axios.post\<close> resolves with: the status and the decoded body, of the
  type the call is given, \<^verbatim>\<open>GraphQLResponse<VaultResponseData>\<close>.
\<close>

record AxiosResponse =
  status :: nat
  response_data :: "VaultResponseData GraphQLResponse"

record Variables =
  first :: int
  skip :: int

record PostRequest =
  url :: string
  query :: string
  variables :: Variables
  headers :: "(string \<times> string) list"

section \<open>getVaultList: constants\<close>

definition GRAPHQL_URL :: "process_env \<Rightarrow> string" where
  "GRAPHQL_URL env =
     env_or env ''MORPHO_GRAPHQL_URL'' ''https://blue-api.morpho.org/graphql''"

definition unlines_js :: "string list \<Rightarrow> string" where
  "unlines_js ls = concat (map (\<lambda>l. l @ [CHR 0x0A]) ls)"

definition VAULTS_QUERY :: string where
  "VAULTS_QUERY = CHR 0x0A # unlines_js
     [''  query FetchVaults($first: Int!, $skip: Int!) {'',
      ''    vaults(first: $first, skip: $skip) {'',
      ''      items {'',
      ''        address'',
      ''        name'',
      ''        symbol'',
      ''        whitelisted'',
      ''        asset {'',
      ''          address'',
      ''          name'',
      ''          symbol'',
      ''          decimals'',
      ''        }'',
      ''        dailyApys {'',
      ''          apy'',
      ''        }'',
      ''        warnings {'',
      ''          level'',
      ''        }'',
      ''        liquidity {'',
      ''          underlying'',
      ''          usd'',
      ''        }'',
      ''        chain {'',
      ''          id'',
      ''          network'',
      ''          currency'',
      ''        }'',
      ''      }'',
      ''    }'',
      ''  }'']"

section \<open>JSON.stringify of the errors array\<close>

text \<open>
  \<^verbatim>\<open>JSON.stringify\<close> quotes a string as ECMAScript's QuoteJSONString does, code point by
  code point. The double quote and the backslash get a backslash; backspace, tab, line
  feed, form feed and carriage return get their short escape; every other unit below
  0x20, and every surrogate that is not the first or second half of a pair, is written
  \<^verbatim>\<open>\uxxxx\<close> with four lower-case hexadecimal digits; a pair of surrogates and every
  other unit stand for themselves.
\<close>

definition dquote :: code_unit where
  "dquote = 0x22"

definition backslash :: code_unit where
  "backslash = 0x5C"

definition is_high_surrogate :: "code_unit \<Rightarrow> bool" where
  "is_high_surrogate c = (0xD800 \<le> c \<and> c \<le> 0xDBFF)"

definition is_low_surrogate :: "code_unit \<Rightarrow> bool" where
  "is_low_surrogate c = (0xDC00 \<le> c \<and> c \<le> 0xDFFF)"

text \<open>The units that are not written as themselves when they stand outside a pair.\<close>

definition needs_escape :: "code_unit \<Rightarrow> bool" where
  "needs_escape c =
     (c = dquote \<or> c = backslash \<or> c < 0x20 \<or> is_high_surrogate c \<or> is_low_surrogate c)"

definition hex_char :: "nat \<Rightarrow> char" where
  "hex_char n = ''0123456789abcdef'' ! (n mod 16)"

definition hex_digit :: "nat \<Rightarrow> code_unit" where
  "hex_digit n = of_nat (of_char (hex_char n))"

definition UnicodeEscape :: "code_unit \<Rightarrow> js_string" where
  "UnicodeEscape c =
     [backslash, 0x75, hex_digit (unat c div 4096), hex_digit (unat c div 256),
      hex_digit (unat c div 16), hex_digit (unat c)]"

definition json_escape_unit :: "code_unit \<Rightarrow> js_string" where
  "json_escape_unit c =
     (if c = 0x08 then [backslash, 0x62]
      else if c = 0x09 then [backslash, 0x74]
      else if c = 0x0A then [backslash, 0x6E]
      else if c = 0x0C then [backslash, 0x66]
      else if c = 0x0D then [backslash, 0x72]
      else if c = dquote then [backslash, dquote]
      else if c = backslash then [backslash, backslash]
      else if c < 0x20 \<or> is_high_surrogate c \<or> is_low_surrogate c then UnicodeEscape c
      else [c])"

fun json_escape :: "js_string \<Rightarrow> js_string" where
  "json_escape [] = []"
| "json_escape [c] = json_escape_unit c"
| "json_escape (c # d # cs) =
     (if is_high_surrogate c \<and> is_low_surrogate d then c # d # json_escape cs
      else json_escape_unit c @ json_escape (d # cs))"

definition QuoteJSONString :: "js_string \<Rightarrow> js_string" where
  "QuoteJSONString s = dquote # json_escape s @ [dquote]"

fun join_comma :: "js_string list \<Rightarrow> js_string" where
  "join_comma [] = []"
| "join_comma [x] = x"
| "join_comma (x # y # ys) = x @ utf16 '','' @ join_comma (y # ys)"

text \<open>An error object has the one property the interface declares.\<close>

definition stringify_error :: "GraphQLError \<Rightarrow> js_string" where
  "stringify_error e =
     utf16 ''{'' @ QuoteJSONString (utf16 ''message'') @ utf16 '':''
       @ QuoteJSONString (message e) @ utf16 ''}''"

text \<open>
  \<^verbatim>\<open>${JSON.stringify(x)}\<close> inside the template literal: \<^verbatim>\<open>JSON.stringify(undefined)\<close>
  is \<^verbatim>\<open>undefined\<close>, which the template prints by name.
\<close>

definition JSON_stringify :: "GraphQLError list option \<Rightarrow> js_string" where
  "JSON_stringify v =
     (case v of
        None \<Rightarrow> utf16 ''undefined''
      | Some es \<Rightarrow> utf16 ''['' @ join_comma (map stringify_error es) @ utf16 '']'')"

text \<open>
  A string that \<^verbatim>\<open>JSON.stringify\<close> writes as it is: every unit is the half of a pair
  or needs no escape.
\<close>

fun plain_text :: "js_string \<Rightarrow> bool" where
  "plain_text [] = True"
| "plain_text [c] = (\<not> needs_escape c)"
| "plain_text (c # d # cs) =
     (if is_high_surrogate c \<and> is_low_surrogate d then plain_text cs
      else \<not> needs_escape c \<and> plain_text (d # cs))"

text \<open>\<^verbatim>\<open>String.prototype.includes\<close>, the test behind jest's \<^verbatim>\<open>toThrow(text)\<close>.\<close>

fun str_includes :: "'a list \<Rightarrow> 'a list \<Rightarrow> bool" where
  "str_includes [] sub = (sub = [])"
| "str_includes (c # cs) sub = (prefix sub (c # cs) \<or> str_includes cs sub)"

section \<open>getVaultList: the function\<close>

text \<open>
  The request that \<^verbatim>\<open>getVaultList(first, skip)\<close> posts. An argument left out takes its
  default, 1000 and 0.
\<close>

definition vault_request :: "process_env \<Rightarrow> int option \<Rightarrow> int option \<Rightarrow> PostRequest" where
  "vault_request env first_arg skip_arg =
     \<lparr>url = GRAPHQL_URL env,
      query = VAULTS_QUERY,
      variables = \<lparr>first = (case first_arg of None \<Rightarrow> 1000 | Some n \<Rightarrow> n),
                   skip = (case skip_arg of None \<Rightarrow> 0 | Some n \<Rightarrow> n)\<rparr>,
      headers = [(''Content-Type'', ''application/json'')]\<rparr>"

text \<open>
  \<^verbatim>\<open>response.data.errors && response.data.errors.length > 0\<close>: an array is truthy, also
  when it is empty.
\<close>

definition has_errors :: "'a GraphQLResponse \<Rightarrow> bool" where
  "has_errors body = (case errors body of None \<Rightarrow> False | Some es \<Rightarrow> 0 < length es)"

text \<open>
  The statements after the \<^verbatim>\<open>await\<close> inside \<^verbatim>\<open>try\<close>, in
  \<^verbatim>\<open>projects/morpho/src/functions/getVaultList.ts\<close>.
\<close>

definition getVaultList_try :: "AxiosResponse \<Rightarrow> thrown + VaultItem list" where
  "getVaultList_try response =
     (if has_errors (response_data response)
      then Inl (ErrorObj (utf16 ''GraphQL errors: '' @ JSON_stringify (errors (response_data response))))
      else case data (response_data response) of
             None \<Rightarrow> Inl (ErrorObj (utf16 ''No data returned from the GraphQL API''))
           | Some d \<Rightarrow> Inr (items (vaults d)))"

text \<open>The \<^verbatim>\<open>catch\<close> clause of both versions.\<close>

definition fetch_catch :: "thrown + 'a \<Rightarrow> thrown + 'a" where
  "fetch_catch r =
     (case r of
        Inl error \<Rightarrow> Inl (ErrorObj (utf16 ''Failed to fetch vault list: '' @ catch_message error))
      | Inr v \<Rightarrow> Inr v)"

text \<open>
  The remote end is a state \<open>'d\<close>, the backing dataset, and \<^verbatim>\<open>axios.post\<close> a step on it:
  it throws (no connection, or an answer whose status is outside 2xx, whatever its body)
  or resolves with a response, and leaves the dataset as the server decides. The
  function returns its promise's outcome and the dataset after its one request.
\<close>

type_synonym 'd axios_post = "'d \<Rightarrow> PostRequest \<Rightarrow> (thrown + AxiosResponse) \<times> 'd"

definition getVaultList ::
  "process_env \<Rightarrow> 'd axios_post \<Rightarrow> int option \<Rightarrow> int option \<Rightarrow> 'd
     \<Rightarrow> (thrown + VaultItem list) \<times> 'd" where
  "getVaultList env post first_arg skip_arg d =
     (case post d (vault_request env first_arg skip_arg) of
        (outcome, d') \<Rightarrow>
          (fetch_catch (case outcome of
                          Inl error \<Rightarrow> Inl error
                        | Inr response \<Rightarrow> getVaultList_try response),
           d'))"

text \<open>
  The second copy of the function, \<^verbatim>\<open>unnamed/part_001\<close>: the same request and the same
  test of \<^verbatim>\<open>errors\<close>, then \<^verbatim>\<open>response.data.data.vaults.items\<close> with no test of
  \<^verbatim>\<open>data\<close>.
\<close>

definition getVaultList_part_001_try :: "AxiosResponse \<Rightarrow> thrown + VaultItem list" where
  "getVaultList_part_001_try response =
     (if has_errors (response_data response)
      then Inl (ErrorObj (utf16 ''GraphQL errors: '' @ JSON_stringify (errors (response_data response))))
      else case data (response_data response) of
             None \<Rightarrow> Inl (TypeError_undefined ''vaults'')
           | Some d \<Rightarrow> Inr (items (vaults d)))"

definition getVaultList_part_001 ::
  "process_env \<Rightarrow> 'd axios_post \<Rightarrow> int option \<Rightarrow> int option \<Rightarrow> 'd
     \<Rightarrow> (thrown + VaultItem list) \<times> 'd" where
  "getVaultList_part_001 env post first_arg skip_arg d =
     (case post d (vault_request env first_arg skip_arg) of
        (outcome, d') \<Rightarrow>
          (fetch_catch (case outcome of
                          Inl error \<Rightarrow> Inl error
                        | Inr response \<Rightarrow> getVaultList_part_001_try response),
           d'))"

text \<open>
  Calls with the same arguments, one after the other: each is made on the dataset that
  the one before left.
\<close>

fun getVaultList_times ::
  "nat \<Rightarrow> process_env \<Rightarrow> 'd axios_post \<Rightarrow> int option \<Rightarrow> int option \<Rightarrow> 'd
     \<Rightarrow> (thrown + VaultItem list) list \<times> 'd" where
  "getVaultList_times 0 env post first_arg skip_arg d = ([], d)"
| "getVaultList_times (Suc n) env post first_arg skip_arg d =
     (case getVaultList env post first_arg skip_arg d of
        (r, d') \<Rightarrow>
          (case getVaultList_times n env post first_arg skip_arg d' of
             (rs, d'') \<Rightarrow> (r # rs, d'')))"

section \<open>deposit: the data\<close>

text \<open>
  The values the deposit path handles at run time. An \<^verbatim>\<open>ethers.BigNumber\<close> is an
  object, hence truthy whatever its value; the decoded arguments of an event are
  untyped (\<^verbatim>\<open>Result\<close>), so \<^verbatim>\<open>args.shares\<close> may also be a plain number, a string,
  a boolean, \<^verbatim>\<open>null\<close> or \<^verbatim>\<open>undefined\<close>. Plain numbers are the integers that
  the decoder produces for short integer types.
\<close>

datatype js_value =
    BigNumber int
  | JSNumber int
  | JSString string
  | JSBoolean bool
  | JSNull
  | JSUndefined

fun truthy :: "js_value \<Rightarrow> bool" where
  "truthy (BigNumber n) = True"
| "truthy (JSNumber n) = (n \<noteq> 0)"
| "truthy (JSString s) = (s \<noteq> [])"
| "truthy (JSBoolean b) = b"
| "truthy JSNull = False"
| "truthy JSUndefined = False"

text \<open>\<^verbatim>\<open>a || b\<close> on values.\<close>

definition js_or :: "js_value \<Rightarrow> js_value \<Rightarrow> js_value" where
  "js_or a b = (if truthy a then a else b)"

record MarketParamsInput =
  loanToken :: string
  collateralToken :: string
  market_oracle :: string
  irm :: string
  lltv :: int
  market_id :: string

record DepositOptions =
  marketParams :: MarketParamsInput
  depositAmount :: int
  onBehalf :: "string option"

text \<open>
  \<^verbatim>\<open>assets\<close> is the \<^verbatim>\<open>BigNumber\<close> of the request, kept by its value;
  \<^verbatim>\<open>shares\<close> is whatever the expression of the \<^verbatim>\<open>return\<close> statement yields.
\<close>

record DepositResult =
  assets :: int
  shares :: js_value

text \<open>
  A receipt as the code reads it: \<^verbatim>\<open>events\<close> is optional, an event's \<^verbatim>\<open>args\<close> is
  optional, and \<^verbatim>\<open>args\<close> maps argument names to values.
\<close>

record Event =
  args :: "(string \<times> js_value) list option"

record ContractReceipt =
  events :: "Event list option"

record ContractTransaction =
  wait :: "thrown + ContractReceipt"

text \<open>
  A call of a contract method: the contract's address, the method's name and the
  arguments in the order they are passed.
\<close>

datatype call_arg = MarketParamsArg MarketParamsInput | ValueArg js_value

record ContractCall =
  contract_address :: string
  method_name :: string
  call_args :: "call_arg list"

text \<open>
  The signing capability: \<^verbatim>\<open>getAddress()\<close> throws or gives an address, the same way
  each time it is asked during one call of \<^verbatim>\<open>deposit\<close>; \<^verbatim>\<open>sendTransaction\<close>, given a
  contract call, throws or gives a transaction handle.
\<close>

record Signer =
  getAddress :: "thrown + string"
  sendTransaction :: "ContractCall \<Rightarrow> thrown + ContractTransaction"

text \<open>What a call of \<^verbatim>\<open>deposit\<close> asks of the signing capability, in order.\<close>

datatype effect = GetAddress | SendTransaction ContractCall | Wait

section \<open>deposit: the function\<close>

definition MORPHO_CONTRACT_ADDRESS :: "process_env \<Rightarrow> string" where
  "MORPHO_CONTRACT_ADDRESS env =
     env_or env ''MORPHO_CONTRACT_ADDRESS'' ''0xBBBBBbbBBb9cC5e90e3b3Af64bdAF62C37EEFFCb''"

text \<open>
  \<^verbatim>\<open>options.onBehalf || (await signer.getAddress())\<close>: the right operand runs only
  when the left one is falsy, that is left out or the empty string.
\<close>

definition resolve_onBehalf :: "DepositOptions \<Rightarrow> Signer \<Rightarrow> (thrown + string) \<times> effect list" where
  "resolve_onBehalf options signer =
     (case onBehalf options of
        None \<Rightarrow> (getAddress signer, [GetAddress])
      | Some a \<Rightarrow> if a = [] then (getAddress signer, [GetAddress]) else (Inr a, []))"

text \<open>\<^verbatim>\<open>receipt.events?.[0]?.args?.shares\<close>.\<close>

definition first_event_shares :: "ContractReceipt \<Rightarrow> js_value" where
  "first_event_shares receipt =
     (case events receipt of
        None \<Rightarrow> JSUndefined
      | Some [] \<Rightarrow> JSUndefined
      | Some (ev # rest) \<Rightarrow>
          (case args ev of
             None \<Rightarrow> JSUndefined
           | Some a \<Rightarrow> (case map_of a ''shares'' of None \<Rightarrow> JSUndefined | Some v \<Rightarrow> v)))"

text \<open>The method and the arguments of the call on line 132.\<close>

definition supply_call :: "process_env \<Rightarrow> DepositOptions \<Rightarrow> js_value \<Rightarrow> string \<Rightarrow> ContractCall" where
  "supply_call env options shares_leg onBehalfAddress =
     \<lparr>contract_address = MORPHO_CONTRACT_ADDRESS env,
      method_name = ''supply'',
      call_args = [MarketParamsArg (marketParams options),
                   ValueArg (BigNumber (depositAmount options)),
                   ValueArg shares_leg,
                   ValueArg (JSString onBehalfAddress),
                   ValueArg (JSString ''0x'')]\<rparr>"

text \<open>
  \<^verbatim>\<open>morphoContract.supply(...)\<close>. The contract object is connected to the signer
  (\<^verbatim>\<open>new ethers.Contract(address, abi, signer)\<close>), and a method of such a contract, in
  ethers version 5, first asks the signer for its address, to fill in the sender of the
  transaction, and then hands the transaction to the signer's \<^verbatim>\<open>sendTransaction\<close>.
  What \<^verbatim>\<open>getAddress\<close> throws there, the call of the method throws, and nothing is sent.
\<close>

definition morphoContract_supply ::
  "Signer \<Rightarrow> ContractCall \<Rightarrow> (thrown + ContractTransaction) \<times> effect list" where
  "morphoContract_supply signer c =
     (case getAddress signer of
        Inl error \<Rightarrow> (Inl error, [GetAddress])
      | Inr sender \<Rightarrow> (sendTransaction signer c, [GetAddress, SendTransaction c]))"

text \<open>The body of \<^verbatim>\<open>try\<close>: call the method, wait for the receipt, build the result.\<close>

definition deposit_try ::
  "process_env \<Rightarrow> DepositOptions \<Rightarrow> Signer \<Rightarrow> string \<Rightarrow> (thrown + DepositResult) \<times> effect list" where
  "deposit_try env options signer onBehalfAddress =
     (let shares_leg = BigNumber 0;
          c = supply_call env options shares_leg onBehalfAddress
      in case morphoContract_supply signer c of
           (Inl error, tr) \<Rightarrow> (Inl error, tr)
         | (Inr txResponse, tr) \<Rightarrow>
             (case wait txResponse of
                Inl error \<Rightarrow> (Inl error, tr @ [Wait])
              | Inr receipt \<Rightarrow>
                  (Inr \<lparr>assets = depositAmount options,
                        shares = js_or (first_event_shares receipt) shares_leg\<rparr>,
                   tr @ [Wait])))"

text \<open>The \<^verbatim>\<open>catch\<close> clause.\<close>

definition deposit_catch :: "thrown + 'a \<Rightarrow> thrown + 'a" where
  "deposit_catch r =
     (case r of
        Inl error \<Rightarrow> Inl (ErrorObj (utf16 ''Deposit failed: '' @ catch_message error))
      | Inr v \<Rightarrow> Inr v)"

text \<open>
  The whole function. Building the contract object from the address, the ABI and the
  signer is taken not to throw; the address it was built with is part of every call.
  The address is resolved before \<^verbatim>\<open>try\<close> opens, so what
  \<^verbatim>\<open>getAddress\<close> throws on line 119 leaves the function as it is; what the
  \<^verbatim>\<open>try\<close> body throws goes through the \<^verbatim>\<open>catch\<close> clause.
\<close>

definition deposit ::
  "process_env \<Rightarrow> DepositOptions \<Rightarrow> Signer \<Rightarrow> (thrown + DepositResult) \<times> effect list" where
  "deposit env options signer =
     (case resolve_onBehalf options signer of
        (Inl error, tr) \<Rightarrow> (Inl error, tr)
      | (Inr onBehalfAddress, tr) \<Rightarrow>
          (case deposit_try env options signer onBehalfAddress of
             (r, tr') \<Rightarrow> (deposit_catch r, tr @ tr')))"

text \<open>The contract calls among the effects.\<close>

fun submitted_calls :: "effect list \<Rightarrow> ContractCall list" where
  "submitted_calls [] = []"
| "submitted_calls (SendTransaction c # es) = c # submitted_calls es"
| "submitted_calls (e # es) = submitted_calls es"

text \<open>
  The spec's wording, "the first emitted event carries args.shares = X": the events list is
  there, it has a first entry, that entry has arguments, and they bind the name.
\<close>

definition carried_shares :: "ContractReceipt \<Rightarrow> js_value option" where
  "carried_shares receipt =
     (case events receipt of
        None \<Rightarrow> None
      | Some evs \<Rightarrow>
          (case evs of
             [] \<Rightarrow> None
           | ev # rest \<Rightarrow> (case args ev of None \<Rightarrow> None | Some a \<Rightarrow> map_of a ''shares'')))"

text \<open>
  ethers writes a byte string as \<^verbatim>\<open>0x\<close> followed by two hexadecimal digits for each
  byte, so the literal \<^verbatim>\<open>"0x"\<close> of the source is the byte string of length zero.
\<close>

definition hexlify :: "nat list \<Rightarrow> string" where
  "hexlify bs = ''0x'' @ concat (map (\<lambda>b. [hex_char (b div 16), hex_char b]) bs)"

section \<open>Sample inputs\<close>

text \<open>The responses of \<^verbatim>\<open>tests/client.test.ts\<close> and the request of the example in
  \<^verbatim>\<open>deposit\<close>'s documentation.\<close>

definition no_env :: process_env where
  "no_env = (\<lambda>var. None)"

definition sample_vault :: VaultItem where
  "sample_vault =
     \<lparr>address = ''0xVaultAddress1'', name = ''Vault One'', symbol = ''VLT1'',
      whitelisted = True,
      asset = \<lparr>asset_address = ''0xAssetAddress1'', asset_name = ''Asset One'',
               asset_symbol = ''AST1'', decimals = 18\<rparr>,
      dailyApys = [\<lparr>apy = 123\<rparr>],
      warnings = [\<lparr>level = ''low''\<rparr>],
      liquidity = \<lparr>underlying = 100, usd = 1000\<rparr>,
      chain = \<lparr>chain_id = 1, network = ''Ethereum'', currency = ''ETH''\<rparr>\<rparr>"

definition second_vault :: VaultItem where
  "second_vault =
     sample_vault\<lparr>address := ''0xVaultAddress2'', name := ''Vault Two'', symbol := ''VLT2''\<rparr>"

text \<open>
  A remote end that keeps a list of vaults and answers the query with the page that the
  variables ask for, and one that also drops its first vault after each answer.
\<close>

definition vaults_page :: "VaultItem list \<Rightarrow> PostRequest \<Rightarrow> AxiosResponse" where
  "vaults_page ds request =
     \<lparr>status = 200,
      response_data =
        \<lparr>data = Some \<lparr>vaults = \<lparr>items = take (nat (first (variables request)))
                                            (drop (nat (skip (variables request))) ds)\<rparr>\<rparr>,
         errors = None\<rparr>\<rparr>"

definition page_server :: "VaultItem list axios_post" where
  "page_server ds request = (Inr (vaults_page ds request), ds)"

definition dropping_server :: "VaultItem list axios_post" where
  "dropping_server ds request = (Inr (vaults_page ds request), tl ds)"

definition reply :: "nat \<Rightarrow> VaultResponseData GraphQLResponse \<Rightarrow> unit axios_post" where
  "reply code body = (\<lambda>d request. (Inr \<lparr>status = code, response_data = body\<rparr>, d))"

definition sampleResponse :: "VaultResponseData GraphQLResponse" where
  "sampleResponse = \<lparr>data = Some \<lparr>vaults = \<lparr>items = [sample_vault]\<rparr>\<rparr>, errors = None\<rparr>"

definition sampleErrorResponse :: "VaultResponseData GraphQLResponse" where
  "sampleErrorResponse =
     \<lparr>data = None, errors = Some [\<lparr>message = utf16 ''Something went wrong''\<rparr>]\<rparr>"

definition quoted_message :: js_string where
  "quoted_message = utf16 ''Cannot query field '' @ [dquote] @ utf16 ''apy'' @ [dquote]"

definition sample_options :: DepositOptions where
  "sample_options =
     \<lparr>marketParams = \<lparr>loanToken = ''0xTokenAddress'',
                       collateralToken = ''0xCollateralTokenAddress'',
                       market_oracle = ''0xOracleAddress'',
                       irm = ''0xIrmAddress'',
                       lltv = 900000000000000000,
                       market_id = ''0xComputedMarketId''\<rparr>,
      depositAmount = 50000000,
      onBehalf = None\<rparr>"

definition receipt_with_shares :: "js_value \<Rightarrow> ContractReceipt" where
  "receipt_with_shares v = \<lparr>events = Some [\<lparr>args = Some [(''shares'', v)]\<rparr>]\<rparr>"

definition signer_ok :: "string \<Rightarrow> thrown + ContractReceipt \<Rightarrow> Signer" where
  "signer_ok a w = \<lparr>getAddress = Inr a, sendTransaction = (\<lambda>c. Inr \<lparr>wait = w\<rparr>)\<rparr>"

definition signer_no_account :: Signer where
  "signer_no_account =
     \<lparr>getAddress = Inl (ErrorObj (utf16 ''unknown account #0'')),
      sendTransaction = (\<lambda>c. Inr \<lparr>wait = Inr \<lparr>events = None\<rparr>\<rparr>)\<rparr>"

section \<open>getVaultList: helper lemmas\<close>

lemma str_includes_iff: "str_includes s sub \<longleftrightarrow> (\<exists>ps ss. s = ps @ sub @ ss)"
proof (induction s)
  case Nil
  then show ?case by auto
next
  case (Cons c cs)
  have "sublist sub (c # cs) \<longleftrightarrow> prefix sub (c # cs) \<or> sublist sub cs"
    by (rule sublist_Cons_right)
  with Cons show ?case
    by (simp add: sublist_def)
qed

lemma str_includes_appendI: "str_includes (ps @ sub @ ss) sub"
  unfolding str_includes_iff by blast

lemma utf16_append: "utf16 (a @ b) = utf16 a @ utf16 b"
  by (simp add: utf16_def)

lemma json_escape_unit_plain: "\<not> needs_escape c \<Longrightarrow> json_escape_unit c = [c]"
  by (auto simp: needs_escape_def json_escape_unit_def dquote_def backslash_def)

lemma json_escape_plain: "plain_text s \<Longrightarrow> json_escape s = s"
  by (induction s rule: json_escape.induct) (simp_all add: json_escape_unit_plain)

text \<open>A surrogate without its other half is escaped; a pair is not.\<close>

lemma json_escape_lone_surrogate:
  "json_escape [0xD83D] = utf16 [CHR 0x5C] @ utf16 ''ud83d''"
  "json_escape [0xD83D, 0xDE00] = [0xD83D, 0xDE00]"
  by (simp_all add: json_escape_unit_def is_high_surrogate_def is_low_surrogate_def
      UnicodeEscape_def hex_digit_def hex_char_def utf16_def dquote_def backslash_def)

lemma join_comma_Cons: "\<exists>rest. join_comma (x # xs) = x @ rest"
  by (cases xs) simp_all

lemma JSON_stringify_first:
  "\<exists>rest. JSON_stringify (Some (e # es)) =
      (utf16 ''[{'' @ QuoteJSONString (utf16 ''message'') @ utf16 '':'' @ [dquote])
        @ json_escape (message e) @ rest"
proof -
  obtain r where "join_comma (map stringify_error (e # es)) = stringify_error e @ r"
    using join_comma_Cons[of "stringify_error e" "map stringify_error es"] by auto
  then show ?thesis
    by (simp add: JSON_stringify_def stringify_error_def QuoteJSONString_def utf16_def)
qed

lemma getVaultList_fst:
  "fst (getVaultList env post first_arg skip_arg d) =
     fetch_catch (case fst (post d (vault_request env first_arg skip_arg)) of
                    Inl error \<Rightarrow> Inl error
                  | Inr response \<Rightarrow> getVaultList_try response)"
  by (simp add: getVaultList_def split: prod.splits)

text \<open>The one thing the function does to the remote end is its request.\<close>

lemma getVaultList_snd:
  "snd (getVaultList env post first_arg skip_arg d) =
     snd (post d (vault_request env first_arg skip_arg))"
  by (simp add: getVaultList_def split: prod.splits)

lemma getVaultList_part_001_fst:
  "fst (getVaultList_part_001 env post first_arg skip_arg d) =
     fetch_catch (case fst (post d (vault_request env first_arg skip_arg)) of
                    Inl error \<Rightarrow> Inl error
                  | Inr response \<Rightarrow> getVaultList_part_001_try response)"
  by (simp add: getVaultList_part_001_def split: prod.splits)

text \<open>The named version does what the spec says when \<open>data\<close> is left out.\<close>

lemma getVaultList_no_data:
  assumes "fst (post d (vault_request env first_arg skip_arg)) = Inr response"
    and "\<not> has_errors (response_data response)"
    and "data (response_data response) = None"
  shows "fst (getVaultList env post first_arg skip_arg d) =
           Inl (ErrorObj (utf16 ''Failed to fetch vault list: ''
                            @ utf16 ''No data returned from the GraphQL API''))"
  using assms by (simp add: getVaultList_fst getVaultList_try_def fetch_catch_def)

text \<open>The two versions differ only when \<open>data\<close> is left out and there is no error.\<close>

lemma getVaultList_part_001_try_agrees:
  "has_errors (response_data response) \<or> data (response_data response) \<noteq> None \<Longrightarrow>
   getVaultList_part_001_try response = getVaultList_try response"
  by (auto simp: getVaultList_part_001_try_def getVaultList_try_def)

text \<open>
  When the remote end changes its dataset between two calls, the calls may differ: the
  second call on a server that drops a vault after each answer gets another page.
\<close>

lemma getVaultList_changed_dataset:
  "getVaultList_times 2 no_env dropping_server (Some 1) (Some 0) [sample_vault, second_vault]
     = ([Inr [sample_vault], Inr [second_vault]], [])"
  by (simp add: numeral_2_eq_2 getVaultList_def dropping_server_def vaults_page_def
      vault_request_def getVaultList_try_def has_errors_def fetch_catch_def)

section \<open>deposit: helper lemmas\<close>

lemma deposit_resolved:
  "resolve_onBehalf options signer = (Inr a, tr) \<Longrightarrow>
   deposit env options signer =
     (deposit_catch (fst (deposit_try env options signer a)),
      tr @ snd (deposit_try env options signer a))"
  by (simp add: deposit_def split: prod.splits)

lemma deposit_try_fst:
  "fst (deposit_try env options signer a) =
     (case fst (morphoContract_supply signer (supply_call env options (BigNumber 0) a)) of
        Inl error \<Rightarrow> Inl error
      | Inr txResponse \<Rightarrow>
          (case wait txResponse of
             Inl error \<Rightarrow> Inl error
           | Inr receipt \<Rightarrow>
               Inr \<lparr>assets = depositAmount options,
                    shares = js_or (first_event_shares receipt) (BigNumber 0)\<rparr>))"
  by (simp add: deposit_try_def Let_def split: prod.splits sum.splits)

lemma deposit_try_confirmed:
  "fst (morphoContract_supply signer (supply_call env options (BigNumber 0) a)) = Inr tx \<Longrightarrow>
   wait tx = Inr receipt \<Longrightarrow>
   fst (deposit_try env options signer a) =
     Inr \<lparr>assets = depositAmount options,
          shares = js_or (first_event_shares receipt) (BigNumber 0)\<rparr>"
  by (simp add: deposit_try_fst)

lemma submitted_calls_deposit_try:
  "submitted_calls (snd (deposit_try env options signer a)) =
     (case getAddress signer of
        Inl error \<Rightarrow> []
      | Inr sender \<Rightarrow> [supply_call env options (BigNumber 0) a])"
  by (simp add: deposit_try_def morphoContract_supply_def Let_def split: sum.splits)

text \<open>The method of the contract asks the signer for its address once.\<close>

lemma count_GetAddress_deposit_try:
  "count_list (snd (deposit_try env options signer a)) GetAddress = 1"
  by (simp add: deposit_try_def morphoContract_supply_def Let_def split: sum.splits)

lemma first_event_shares_carried:
  "first_event_shares receipt =
     (case carried_shares receipt of None \<Rightarrow> JSUndefined | Some v \<Rightarrow> v)"
  by (simp add: first_event_shares_def carried_shares_def split: option.splits list.splits)

lemma falsy_not_BigNumber: "\<not> truthy X \<Longrightarrow> X \<noteq> BigNumber n"
  by (cases X) simp_all

text \<open>What \<^verbatim>\<open>getAddress\<close> throws on line 119 leaves \<^verbatim>\<open>deposit\<close> unchanged.\<close>

lemma deposit_getAddress_failure:
  assumes "onBehalf options = None \<or> onBehalf options = Some []"
    and "getAddress signer = Inl e"
  shows "deposit env options signer = (Inl e, [GetAddress])"
  using assms by (auto simp: deposit_def resolve_onBehalf_def)

section \<open>getVaultList: the claims\<close>

text \<open>
  C2. A response with status 200 whose body has neither \<open>data\<close> nor a non-empty
  \<open>errors\<close> array must be rejected with the "No data returned" error behind the
  fetch-failure prefix. The copy of \<^verbatim>\<open>getVaultList\<close> in \<^verbatim>\<open>unnamed/part_001\<close> has no test
  of \<open>data\<close>: on the body \<^verbatim>\<open>{}\<close> it reads \<^verbatim>\<open>.vaults\<close> of \<^verbatim>\<open>undefined\<close>, and
  rejects with the \<^verbatim>\<open>TypeError\<close>'s message instead. The copy in
  \<^verbatim>\<open>projects/morpho/src/functions/getVaultList.ts\<close> rejects as the claim says, on the same
  input (and on every such input, by \<open>getVaultList_no_data\<close>).
\<close>

theorem getVaultList_part_001_missing_data:
  "fst (getVaultList_part_001 no_env (reply 200 \<lparr>data = None, errors = None\<rparr>) (Some 100) (Some 0) ())
     = Inl (ErrorObj (utf16 ''Failed to fetch vault list: ''
              @ utf16 (''Cannot read properties of undefined (reading '' @ [CHR 0x27] @ ''vaults''
                       @ [CHR 0x27] @ '')'')))
   \<and> fst (getVaultList_part_001 no_env (reply 200 \<lparr>data = None, errors = None\<rparr>) (Some 100) (Some 0) ())
     \<noteq> Inl (ErrorObj (utf16 ''Failed to fetch vault list: ''
              @ utf16 ''No data returned from the GraphQL API''))
   \<and> fst (getVaultList no_env (reply 200 \<lparr>data = None, errors = None\<rparr>) (Some 100) (Some 0) ())
     = Inl (ErrorObj (utf16 ''Failed to fetch vault list: ''
              @ utf16 ''No data returned from the GraphQL API''))"
  by (simp add: getVaultList_part_001_fst getVaultList_fst reply_def getVaultList_part_001_try_def
      getVaultList_try_def has_errors_def fetch_catch_def TypeError_undefined_def utf16_def)

text \<open>
  C5, as the code has it. For every response that \<^verbatim>\<open>axios.post\<close> resolves with (which
  it does for a status in 2xx, 200 among them) and whose body has a non-empty \<open>errors\<close>
  array, \<^verbatim>\<open>getVaultList\<close> rejects with the message
  \<^verbatim>\<open>Failed to fetch vault list: GraphQL errors: \<close> followed by the JSON text of the array.
  That message contains the first error's message in its JSON-escaped form; it contains
  the message itself whenever \<^verbatim>\<open>JSON.stringify\<close> writes the message as it is, that is
  when the message has no double quote, no backslash, no control character and no
  surrogate without its other half.
\<close>

theorem getVaultList_graphql_errors:
  assumes "fst (post d (vault_request env first_arg skip_arg)) = Inr response"
    and "errors (response_data response) = Some (e # es)"
  shows "\<exists>m. fst (getVaultList env post first_arg skip_arg d) = Inl (ErrorObj m)
           \<and> m = utf16 ''Failed to fetch vault list: '' @ utf16 ''GraphQL errors: ''
                   @ JSON_stringify (Some (e # es))
           \<and> str_includes m (json_escape (message e))
           \<and> (plain_text (message e) \<longrightarrow> str_includes m (message e))"
proof -
  define m where
    "m = utf16 ''Failed to fetch vault list: '' @ utf16 ''GraphQL errors: ''
           @ JSON_stringify (Some (e # es))"
  have r: "fst (getVaultList env post first_arg skip_arg d) = Inl (ErrorObj m)"
    using assms
    by (simp add: m_def getVaultList_fst getVaultList_try_def has_errors_def fetch_catch_def)
  obtain rest where
    "JSON_stringify (Some (e # es)) =
       (utf16 ''[{'' @ QuoteJSONString (utf16 ''message'') @ utf16 '':'' @ [dquote])
         @ json_escape (message e) @ rest"
    using JSON_stringify_first by blast
  then have "m = (utf16 ''Failed to fetch vault list: '' @ utf16 ''GraphQL errors: ''
                    @ utf16 ''[{'' @ QuoteJSONString (utf16 ''message'') @ utf16 '':'' @ [dquote])
                  @ json_escape (message e) @ rest"
    unfolding m_def by (simp only: append_assoc)
  then have inc: "str_includes m (json_escape (message e))"
    by (metis str_includes_appendI)
  have plain: "plain_text (message e) \<longrightarrow> str_includes m (message e)"
    using inc json_escape_plain [of "message e"] by auto
  from r inc plain show ?thesis
    unfolding m_def by blast
qed

text \<open>The scenario of the test file: status 200, one error, "Something went wrong".\<close>

theorem getVaultList_graphql_errors_witness:
  "fst (reply 200 sampleErrorResponse () (vault_request no_env (Some 100) (Some 0)))
     = Inr \<lparr>status = 200, response_data = sampleErrorResponse\<rparr>
   \<and> errors sampleErrorResponse = Some [\<lparr>message = utf16 ''Something went wrong''\<rparr>]
   \<and> plain_text (utf16 ''Something went wrong'')
   \<and> (\<exists>m. fst (getVaultList no_env (reply 200 sampleErrorResponse) (Some 100) (Some 0) ())
             = Inl (ErrorObj m)
          \<and> str_includes m (utf16 ''Something went wrong''))"
proof -
  have p: "plain_text (utf16 ''Something went wrong'')"
    by (simp add: utf16_def needs_escape_def dquote_def backslash_def
        is_high_surrogate_def is_low_surrogate_def)
  show ?thesis
    using p getVaultList_graphql_errors [of "reply 200 sampleErrorResponse" "()" no_env "Some 100" "Some 0"
        "\<lparr>status = 200, response_data = sampleErrorResponse\<rparr>"
        "\<lparr>message = utf16 ''Something went wrong''\<rparr>" "[]"]
    by (auto simp: reply_def sampleErrorResponse_def)
qed

text \<open>
  C5 as stated fails on a message with a double quote, as the messages of GraphQL
  validation have: \<^verbatim>\<open>JSON.stringify\<close> writes each quote with a backslash before it,
  and the text of the message is no longer a part of what the rejection says.
\<close>

theorem getVaultList_errors_counterexample:
  "fst (getVaultList no_env
          (reply 200 \<lparr>data = None, errors = Some [\<lparr>message = quoted_message\<rparr>]\<rparr>) (Some 100) (Some 0) ())
     = Inl (ErrorObj (utf16 ''Failed to fetch vault list: GraphQL errors: [{'' @ [dquote]
              @ utf16 ''message'' @ [dquote] @ utf16 '':'' @ [dquote]
              @ utf16 ''Cannot query field '' @ [backslash, dquote] @ utf16 ''apy''
              @ [backslash, dquote] @ [dquote] @ utf16 ''}]''))
   \<and> \<not> str_includes
          (utf16 ''Failed to fetch vault list: GraphQL errors: [{'' @ [dquote]
              @ utf16 ''message'' @ [dquote] @ utf16 '':'' @ [dquote]
              @ utf16 ''Cannot query field '' @ [backslash, dquote] @ utf16 ''apy''
              @ [backslash, dquote] @ [dquote] @ utf16 ''}]'')
          quoted_message"
  by (simp add: getVaultList_fst reply_def getVaultList_try_def has_errors_def fetch_catch_def
      JSON_stringify_def stringify_error_def QuoteJSONString_def
      json_escape_unit_def is_high_surrogate_def is_low_surrogate_def
      quoted_message_def dquote_def backslash_def utf16_def)

text \<open>
  C6. For every pair of arguments and every response with no error and with \<open>data\<close>,
  \<^verbatim>\<open>getVaultList\<close> resolves with the list \<open>data.vaults.items\<close> itself: the same records,
  as many, in the same order, every field as it came.
\<close>

theorem getVaultList_returns_items:
  assumes "fst (post d (vault_request env first_arg skip_arg)) = Inr response"
    and "errors (response_data response) = None \<or> errors (response_data response) = Some []"
    and "data (response_data response) = Some dat"
  shows "fst (getVaultList env post first_arg skip_arg d) = Inr (items (vaults dat))"
  using assms
  by (auto simp: getVaultList_fst getVaultList_try_def has_errors_def fetch_catch_def)

text \<open>The successful response of the test file: one vault, returned as it is.\<close>

theorem getVaultList_returns_items_witness:
  "fst (reply 200 sampleResponse () (vault_request no_env (Some 100) (Some 0)))
     = Inr \<lparr>status = 200, response_data = sampleResponse\<rparr>
   \<and> errors sampleResponse = None
   \<and> data sampleResponse = Some \<lparr>vaults = \<lparr>items = [sample_vault]\<rparr>\<rparr>
   \<and> fst (getVaultList no_env (reply 200 sampleResponse) (Some 100) (Some 0) ()) = Inr [sample_vault]
   \<and> name (sample_vault) = ''Vault One''"
  using getVaultList_returns_items [of "reply 200 sampleResponse" "()" no_env "Some 100" "Some 0"
      "\<lparr>status = 200, response_data = sampleResponse\<rparr>" "\<lparr>vaults = \<lparr>items = [sample_vault]\<rparr>\<rparr>"]
  by (simp add: reply_def sampleResponse_def sample_vault_def)

text \<open>
  C7. \<^verbatim>\<open>getVaultList\<close> is a pure read. Take any remote end and any dataset that the
  remote end leaves unchanged when it answers the request of \<open>(first, skip)\<close>. Then the
  call leaves the dataset unchanged too, for the request is all it does; a second call
  with the same arguments, made on the dataset the first one left, has the outcome of
  the first; and so have any number of calls made one after the other.
\<close>

theorem getVaultList_pure_read:
  assumes "snd (post d (vault_request env first_arg skip_arg)) = d"
  shows "snd (getVaultList env post first_arg skip_arg d) = d
       \<and> getVaultList env post first_arg skip_arg (snd (getVaultList env post first_arg skip_arg d))
           = getVaultList env post first_arg skip_arg d
       \<and> getVaultList_times n env post first_arg skip_arg d
           = (replicate n (fst (getVaultList env post first_arg skip_arg d)), d)"
proof -
  have unchanged: "snd (getVaultList env post first_arg skip_arg d) = d"
    using assms by (simp add: getVaultList_snd)
  have "getVaultList_times n env post first_arg skip_arg d
          = (replicate n (fst (getVaultList env post first_arg skip_arg d)), d)"
  proof (induction n)
    case 0
    show ?case by simp
  next
    case (Suc n)
    obtain r where call: "getVaultList env post first_arg skip_arg d = (r, d)"
      using unchanged by (metis prod.collapse)
    show ?case
      using Suc by (simp add: call)
  qed
  with unchanged show ?thesis by simp
qed

text \<open>
  Two calls for the second page of one vault, on a dataset of two vaults that the remote
  end only reads: both give the second vault, and the dataset is what it was.
\<close>

theorem getVaultList_pure_read_witness:
  "snd (page_server [sample_vault, second_vault] (vault_request no_env (Some 1) (Some 1)))
     = [sample_vault, second_vault]
   \<and> getVaultList_times 2 no_env page_server (Some 1) (Some 1) [sample_vault, second_vault]
       = ([Inr [second_vault], Inr [second_vault]], [sample_vault, second_vault])"
  using getVaultList_pure_read [of page_server "[sample_vault, second_vault]" no_env "Some 1" "Some 1" 2]
  by (simp add: page_server_def getVaultList_fst vaults_page_def vault_request_def
      getVaultList_try_def has_errors_def fetch_catch_def numeral_2_eq_2)

text \<open>
  C8. A response whose \<open>errors\<close> array is present and empty, with \<open>data\<close>, is a success
  and gives the items; and for any body, an empty \<open>errors\<close> array gives what the body
  without \<open>errors\<close> gives.
\<close>

theorem getVaultList_empty_errors:
  assumes "fst (post d (vault_request env first_arg skip_arg)) = Inr response"
    and "errors (response_data response) = Some []"
    and "data (response_data response) = Some dat"
  shows "fst (getVaultList env post first_arg skip_arg d) = Inr (items (vaults dat))
       \<and> (\<forall>code body.
             getVaultList_try \<lparr>status = code, response_data = body\<lparr>errors := Some []\<rparr>\<rparr>
               = getVaultList_try \<lparr>status = code, response_data = body\<lparr>errors := None\<rparr>\<rparr>)"
  using assms
  by (simp add: getVaultList_fst getVaultList_try_def has_errors_def fetch_catch_def)

theorem getVaultList_empty_errors_witness:
  "fst (reply 200 (sampleResponse\<lparr>errors := Some []\<rparr>) () (vault_request no_env None None))
     = Inr \<lparr>status = 200, response_data = sampleResponse\<lparr>errors := Some []\<rparr>\<rparr>
   \<and> errors (sampleResponse\<lparr>errors := Some []\<rparr>) = Some []
   \<and> fst (getVaultList no_env (reply 200 (sampleResponse\<lparr>errors := Some []\<rparr>)) None None ())
       = Inr [sample_vault]"
  using getVaultList_empty_errors [of "reply 200 (sampleResponse\<lparr>errors := Some []\<rparr>)" "()" no_env
      None None "\<lparr>status = 200, response_data = sampleResponse\<lparr>errors := Some []\<rparr>\<rparr>"
      "\<lparr>vaults = \<lparr>items = [sample_vault]\<rparr>\<rparr>"]
  by (simp add: reply_def sampleResponse_def)

section \<open>deposit: the claims\<close>

text \<open>
  C1, as the code has it. Once the address is resolved, whatever the call of the
  contract's method or the wait for the confirmation throws, \<^verbatim>\<open>deposit\<close> rejects with
  an \<^verbatim>\<open>Error\<close> whose message is \<^verbatim>\<open>Deposit failed: \<close> followed by the cause's message.
  (The address is resolved on line 119, before the \<^verbatim>\<open>try\<close> statement opens.)
\<close>

theorem deposit_failure_wrapped:
  assumes "fst (resolve_onBehalf options signer) = Inr a"
    and "fst (morphoContract_supply signer (supply_call env options (BigNumber 0) a)) = Inl e
         \<or> (\<exists>tx. fst (morphoContract_supply signer (supply_call env options (BigNumber 0) a)) = Inr tx
                 \<and> wait tx = Inl e)"
  shows "fst (deposit env options signer)
           = Inl (ErrorObj (utf16 ''Deposit failed: '' @ catch_message e))"
proof -
  obtain tr where "resolve_onBehalf options signer = (Inr a, tr)"
    using assms(1) by (cases "resolve_onBehalf options signer") simp
  then have "fst (deposit env options signer) = deposit_catch (fst (deposit_try env options signer a))"
    by (simp add: deposit_resolved)
  moreover have "fst (deposit_try env options signer a) = Inl e"
    using assms(2) by (auto simp: deposit_try_fst)
  ultimately show ?thesis
    by (simp add: deposit_catch_def)
qed

theorem deposit_failure_wrapped_witness:
  "fst (resolve_onBehalf sample_options
          (signer_ok ''0xSigner'' (Inl (ErrorObj (utf16 ''transaction failed''))))) = Inr ''0xSigner''
   \<and> (\<exists>tx. fst (morphoContract_supply (signer_ok ''0xSigner'' (Inl (ErrorObj (utf16 ''transaction failed''))))
                   (supply_call no_env sample_options (BigNumber 0) ''0xSigner'')) = Inr tx
          \<and> wait tx = Inl (ErrorObj (utf16 ''transaction failed'')))
   \<and> fst (deposit no_env sample_options
            (signer_ok ''0xSigner'' (Inl (ErrorObj (utf16 ''transaction failed'')))))
       = Inl (ErrorObj (utf16 ''Deposit failed: transaction failed''))"
  using deposit_failure_wrapped [of sample_options
      "signer_ok ''0xSigner'' (Inl (ErrorObj (utf16 ''transaction failed'')))" "''0xSigner''" no_env
      "ErrorObj (utf16 ''transaction failed'')"]
  by (simp add: resolve_onBehalf_def sample_options_def signer_ok_def morphoContract_supply_def
      utf16_def)

text \<open>
  C1 as stated fails where it names the signer's own address: with \<open>onBehalf\<close> left out
  and a signer whose \<^verbatim>\<open>getAddress\<close> throws, \<^verbatim>\<open>deposit\<close> rejects with the signer's
  error, without the prefix.
\<close>

theorem deposit_getAddress_counterexample:
  "fst (deposit no_env sample_options signer_no_account)
       = Inl (ErrorObj (utf16 ''unknown account #0''))
   \<and> fst (deposit no_env sample_options signer_no_account)
       \<noteq> Inl (ErrorObj (utf16 ''Deposit failed: '' @ utf16 ''unknown account #0''))"
  by (simp add: deposit_def resolve_onBehalf_def sample_options_def signer_no_account_def utf16_def)



text \<open>
  C4. With \<open>onBehalf\<close> left out, the contract calls that \<^verbatim>\<open>deposit\<close> submits are: none
  when the signer gives no address, and otherwise exactly one, the method \<^verbatim>\<open>supply\<close> of
  the Morpho contract with the parameters, in this order, \<open>marketParams\<close>, the
  \<open>depositAmount\<close>, zero, the signer's address and the empty byte string.
\<close>

theorem deposit_supply_call:
  assumes "onBehalf options = None"
  shows "submitted_calls (snd (deposit env options signer)) =
           (case getAddress signer of
              Inl e \<Rightarrow> []
            | Inr a \<Rightarrow>
                [\<lparr>contract_address = MORPHO_CONTRACT_ADDRESS env,
                  method_name = ''supply'',
                  call_args = [MarketParamsArg (marketParams options),
                               ValueArg (BigNumber (depositAmount options)),
                               ValueArg (BigNumber 0),
                               ValueArg (JSString a),
                               ValueArg (JSString (hexlify []))]\<rparr>])"
proof (cases "getAddress signer")
  case (Inl e)
  then show ?thesis
    using assms by (simp add: deposit_def resolve_onBehalf_def)
next
  case (Inr a)
  then have "resolve_onBehalf options signer = (Inr a, [GetAddress])"
    using assms by (simp add: resolve_onBehalf_def)
  then show ?thesis
    using Inr
    by (simp add: deposit_resolved submitted_calls_deposit_try supply_call_def hexlify_def)
qed

text \<open>The request of the documentation's example: 50 units at six decimals.\<close>

theorem deposit_supply_call_witness:
  "onBehalf sample_options = None
   \<and> depositAmount sample_options = 50000000
   \<and> submitted_calls (snd (deposit no_env sample_options (signer_ok ''0xSigner'' (Inr \<lparr>events = None\<rparr>))))
       = [\<lparr>contract_address = ''0xBBBBBbbBBb9cC5e90e3b3Af64bdAF62C37EEFFCb'',
           method_name = ''supply'',
           call_args = [MarketParamsArg (marketParams sample_options),
                        ValueArg (BigNumber 50000000),
                        ValueArg (BigNumber 0),
                        ValueArg (JSString ''0xSigner''),
                        ValueArg (JSString ''0x'')]\<rparr>]"
  using deposit_supply_call [of sample_options no_env "signer_ok ''0xSigner'' (Inr \<lparr>events = None\<rparr>)"]
  by (simp add: sample_options_def signer_ok_def MORPHO_CONTRACT_ADDRESS_def env_or_def no_env_def
      hexlify_def)

text \<open>
  C9, as the code has it. The resolution of \<open>onBehalf\<close> tests truthiness. With
  \<open>onBehalf\<close> the empty string, the resolution calls \<^verbatim>\<open>getAddress\<close> and the call
  submitted carries the signer's address as its fourth parameter. With \<open>onBehalf\<close> a
  non-empty string, the resolution calls nothing and the call submitted carries that
  string; \<^verbatim>\<open>getAddress\<close> is still called, once, by the contract's method.
\<close>

theorem deposit_onBehalf_truthiness:
  "(onBehalf options = Some [] \<and> getAddress signer = Inr a \<longrightarrow>
      snd (resolve_onBehalf options signer) = [GetAddress]
      \<and> submitted_calls (snd (deposit env options signer)) = [supply_call env options (BigNumber 0) a]
      \<and> call_args (supply_call env options (BigNumber 0) a) ! 3 = ValueArg (JSString a))
   \<and> (onBehalf options = Some b \<and> b \<noteq> [] \<longrightarrow>
      resolve_onBehalf options signer = (Inr b, [])
      \<and> count_list (snd (deposit env options signer)) GetAddress = 1
      \<and> submitted_calls (snd (deposit env options signer))
          = (case getAddress signer of
               Inl e \<Rightarrow> []
             | Inr sender \<Rightarrow> [supply_call env options (BigNumber 0) b])
      \<and> call_args (supply_call env options (BigNumber 0) b) ! 3 = ValueArg (JSString b))"
proof (intro conjI impI)
  assume h: "onBehalf options = Some [] \<and> getAddress signer = Inr a"
  then have r: "resolve_onBehalf options signer = (Inr a, [GetAddress])"
    by (simp add: resolve_onBehalf_def)
  then show "snd (resolve_onBehalf options signer) = [GetAddress]"
    by simp
  show "submitted_calls (snd (deposit env options signer)) = [supply_call env options (BigNumber 0) a]"
    using h by (simp add: deposit_resolved [OF r] submitted_calls_deposit_try)
  show "call_args (supply_call env options (BigNumber 0) a) ! 3 = ValueArg (JSString a)"
    by (simp add: supply_call_def)
next
  assume h: "onBehalf options = Some b \<and> b \<noteq> []"
  then show r: "resolve_onBehalf options signer = (Inr b, [])"
    by (simp add: resolve_onBehalf_def)
  show "count_list (snd (deposit env options signer)) GetAddress = 1"
    by (simp add: deposit_resolved [OF r] count_GetAddress_deposit_try)
  show "submitted_calls (snd (deposit env options signer))
          = (case getAddress signer of
               Inl e \<Rightarrow> []
             | Inr sender \<Rightarrow> [supply_call env options (BigNumber 0) b])"
    by (simp add: deposit_resolved [OF r] submitted_calls_deposit_try)
  show "call_args (supply_call env options (BigNumber 0) b) ! 3 = ValueArg (JSString b)"
    by (simp add: supply_call_def)
qed

theorem deposit_onBehalf_truthiness_witness:
  "onBehalf (sample_options\<lparr>onBehalf := Some []\<rparr>) = Some []
   \<and> getAddress (signer_ok ''0xSigner'' (Inr \<lparr>events = None\<rparr>)) = Inr ''0xSigner''
   \<and> submitted_calls (snd (deposit no_env (sample_options\<lparr>onBehalf := Some []\<rparr>)
                             (signer_ok ''0xSigner'' (Inr \<lparr>events = None\<rparr>))))
       = [supply_call no_env (sample_options\<lparr>onBehalf := Some []\<rparr>) (BigNumber 0) ''0xSigner'']
   \<and> onBehalf (sample_options\<lparr>onBehalf := Some ''0xOther''\<rparr>) = Some ''0xOther''
   \<and> resolve_onBehalf (sample_options\<lparr>onBehalf := Some ''0xOther''\<rparr>)
         (signer_ok ''0xSigner'' (Inr \<lparr>events = None\<rparr>)) = (Inr ''0xOther'', [])
   \<and> count_list (snd (deposit no_env (sample_options\<lparr>onBehalf := Some ''0xOther''\<rparr>)
                         (signer_ok ''0xSigner'' (Inr \<lparr>events = None\<rparr>)))) GetAddress = 1
   \<and> submitted_calls (snd (deposit no_env (sample_options\<lparr>onBehalf := Some ''0xOther''\<rparr>)
                             (signer_ok ''0xSigner'' (Inr \<lparr>events = None\<rparr>))))
       = [supply_call no_env (sample_options\<lparr>onBehalf := Some ''0xOther''\<rparr>) (BigNumber 0) ''0xOther'']"
  using deposit_onBehalf_truthiness [of "sample_options\<lparr>onBehalf := Some []\<rparr>"
      "signer_ok ''0xSigner'' (Inr \<lparr>events = None\<rparr>)" "''0xSigner''" no_env "''0xOther''"]
    deposit_onBehalf_truthiness [of "sample_options\<lparr>onBehalf := Some ''0xOther''\<rparr>"
      "signer_ok ''0xSigner'' (Inr \<lparr>events = None\<rparr>)" "''0xSigner''" no_env "''0xOther''"]
  by (simp add: sample_options_def signer_ok_def)

text \<open>
  C9 as stated fails where it says that \<^verbatim>\<open>getAddress\<close> is not called at all: with
  \<open>onBehalf\<close> a non-empty string and a signer whose \<^verbatim>\<open>getAddress\<close> throws, the
  method of the contract calls it, and \<^verbatim>\<open>deposit\<close> rejects with what it threw.
\<close>

theorem deposit_onBehalf_counterexample:
  "onBehalf (sample_options\<lparr>onBehalf := Some ''0xOther''\<rparr>) = Some ''0xOther''
   \<and> GetAddress \<in> set (snd (deposit no_env (sample_options\<lparr>onBehalf := Some ''0xOther''\<rparr>)
                                signer_no_account))
   \<and> fst (deposit no_env (sample_options\<lparr>onBehalf := Some ''0xOther''\<rparr>) signer_no_account)
       = Inl (ErrorObj (utf16 ''Deposit failed: unknown account #0''))"
  by (simp add: deposit_def resolve_onBehalf_def deposit_try_def morphoContract_supply_def
      deposit_catch_def sample_options_def signer_no_account_def Let_def utf16_def)

text \<open>
  C10. When the first event of the receipt carries a falsy \<open>args.shares\<close> value (the
  plain number 0, the empty string, \<^verbatim>\<open>false\<close>, \<^verbatim>\<open>null\<close>, \<^verbatim>\<open>undefined\<close>), the
  result's \<open>shares\<close> is the zero \<^verbatim>\<open>BigNumber\<close> that was submitted, and not the event's
  value.
\<close>

theorem deposit_falsy_shares_fallback:
  assumes "fst (resolve_onBehalf options signer) = Inr a"
    and "fst (morphoContract_supply signer (supply_call env options (BigNumber 0) a)) = Inr tx"
    and "wait tx = Inr receipt"
    and "carried_shares receipt = Some X"
    and "\<not> truthy X"
  shows "\<exists>r. fst (deposit env options signer) = Inr r
           \<and> ValueArg (shares r) = call_args (supply_call env options (BigNumber 0) a) ! 2
           \<and> shares r = BigNumber 0
           \<and> shares r \<noteq> X"
proof -
  obtain tr where "resolve_onBehalf options signer = (Inr a, tr)"
    using assms(1) by (cases "resolve_onBehalf options signer") simp
  then have "fst (deposit env options signer) = deposit_catch (fst (deposit_try env options signer a))"
    by (simp add: deposit_resolved)
  then have "fst (deposit env options signer) =
      Inr \<lparr>assets = depositAmount options,
           shares = js_or (first_event_shares receipt) (BigNumber 0)\<rparr>"
    using assms(2,3) by (simp add: deposit_try_confirmed deposit_catch_def)
  moreover have "js_or (first_event_shares receipt) (BigNumber 0) = BigNumber 0"
    using assms(4,5) by (simp add: first_event_shares_carried js_or_def)
  moreover have "BigNumber 0 \<noteq> X"
    using falsy_not_BigNumber [OF assms(5)] by blast
  ultimately show ?thesis
    by (simp add: supply_call_def)
qed

theorem deposit_falsy_shares_fallback_witness:
  "fst (resolve_onBehalf sample_options
         (signer_ok ''0xSigner'' (Inr (receipt_with_shares (JSNumber 0))))) = Inr ''0xSigner''
   \<and> carried_shares (receipt_with_shares (JSNumber 0)) = Some (JSNumber 0)
   \<and> \<not> truthy (JSNumber 0)
   \<and> (\<exists>r. fst (deposit no_env sample_options
                 (signer_ok ''0xSigner'' (Inr (receipt_with_shares (JSNumber 0))))) = Inr r
          \<and> shares r = BigNumber 0
          \<and> shares r \<noteq> JSNumber 0)"
  using deposit_falsy_shares_fallback [of sample_options
      "signer_ok ''0xSigner'' (Inr (receipt_with_shares (JSNumber 0)))" "''0xSigner''" no_env
      "\<lparr>wait = Inr (receipt_with_shares (JSNumber 0))\<rparr>"
      "receipt_with_shares (JSNumber 0)" "JSNumber 0"]
  by (auto simp: resolve_onBehalf_def sample_options_def signer_ok_def carried_shares_def
      receipt_with_shares_def morphoContract_supply_def)

end
